theory Spec2Isabelle
  imports Main "HOL-Library.Sublist"
begin

section \<open>JavaScript values\<close>

text \<open>
  Plain JavaScript data: the caller context (request, decoded JWT), the rows a query
  returns and the object a resolver hands back are trees of these values. An object is
  its list of own properties in insertion order. The JavaScript value \<open>undefined\<close> is
  not a constructor: a lookup that yields \<open>undefined\<close> returns \<open>None\<close>.
\<close>

datatype json =
    JNull
  | JBool bool
  | JNum int
  | JStr string
  | JArr "json list"
  | JObj "(string \<times> json) list"

section \<open>The global node resolver (schema/resolvers/global-node.ts)\<close>

text \<open>
  \<open>fromGlobalId\<close> (utils/global-ids) is a parameter of the model. The resolver
  destructures its result into \<open>label\<close>, \<open>field\<close> and \<open>id\<close> and tests each with
  \<open>!\<close>, so the result is an object whose three components are a string or
  \<open>undefined\<close>.
\<close>

record GlobalId =
  gid_label :: "string option"
  gid_field :: "string option"
  gid_id :: "string option"

text \<open>JavaScript's \<open>!x\<close> on a value that is a string or \<open>undefined\<close>.\<close>

definition falsy :: "string option \<Rightarrow> bool" where
  "falsy x = (case x of None \<Rightarrow> True | Some s \<Rightarrow> s = [])"

text \<open>
  Of the class \<open>Node\<close> the resolver reads the property \<open>name\<close> and the result of
  the method \<open>getMainLabel()\<close>.
\<close>

record Node =
  name :: string
  getMainLabel :: string

text \<open>
  The context object; the resolver assigns its \<open>resolveTree\<close> and passes it on. The
  other properties of the context stay in the record's extension.
\<close>

record 'tree Context =
  resolveTree :: "'tree option"

text \<open>One record of an execution result: the resolver reads its column \<open>this\<close>.\<close>

record Record =
  this :: "(string \<rightharpoonup> json) option"

text \<open>
  \<open>translateRead\<close> and \<open>execute\<close> may throw; the resolver has no handler, so their
  exception is the resolver's.
\<close>

datatype error = TranslateFailed string | ExecuteFailed string

text \<open>A statement handed to \<open>execute\<close>: the query and its \<open>defaultAccessMode\<close>.\<close>

type_synonym 'q statement = "'q \<times> string"

text \<open>
  The resolver. Beside the resolved value (\<open>None\<close> is JavaScript's \<open>null\<close>) it
  returns the list of statements it handed to \<open>execute\<close>, in order.
\<close>

definition resolve ::
  "Node list \<Rightarrow> (string \<Rightarrow> GlobalId) \<Rightarrow> ('info \<Rightarrow> 'tree) \<Rightarrow>
   (('tree, 'c) Context_scheme \<Rightarrow> Node \<Rightarrow> error + 'q) \<Rightarrow>
   ('q statement \<Rightarrow> ('tree, 'c) Context_scheme \<Rightarrow> error + Record list) \<Rightarrow>
   string \<Rightarrow> ('tree, 'c) Context_scheme \<Rightarrow> 'info \<Rightarrow>
   (error + (string \<rightharpoonup> json) option) \<times> 'q statement list" where
  "resolve nodes fromGlobalId getNeo4jResolveTree translateRead execute args_id ctx info =
     (let g = fromGlobalId args_id in
      if falsy (gid_label g) \<or> falsy (gid_field g) \<or> falsy (gid_id g) then (Inr None, [])
      else
        (case find (\<lambda>n. Some (getMainLabel n) = gid_label g) nodes of
           None \<Rightarrow> (Inr None, [])
         | Some node \<Rightarrow>
             (let ctx' = ctx\<lparr>resolveTree := Some (getNeo4jResolveTree info)\<rparr> in
              (case translateRead ctx' node of
                 Inl e \<Rightarrow> (Inl e, [])
               | Inr q \<Rightarrow>
                   (case execute (q, ''READ'') ctx' of
                      Inl e \<Rightarrow> (Inl e, [(q, ''READ'')])
                    | Inr records \<Rightarrow>
                        (let obj = [''id'' \<mapsto> JStr args_id,
                                    ''__resolveType'' \<mapsto> JStr (name node)] in
                         (Inr (Some (case records of
                                       [] \<Rightarrow> obj
                                     | r # _ \<Rightarrow>
                                         (case this r of None \<Rightarrow> obj | Some t \<Rightarrow> t ++ obj))),
                          [(q, ''READ'')])))))))"

section \<open>The context parser (ContextParser, src/unnamed/part\_001)\<close>

text \<open>
  JavaScript's \<open>String.prototype.split\<close> with a separator that is a non-empty string:
  the pieces between the occurrences of the separator, read from the left.
\<close>

function split :: "string \<Rightarrow> string \<Rightarrow> string list" where
  "split sep [] = [[]]"
| "split sep (x # xs) =
     (if sep \<noteq> [] \<and> prefix sep (x # xs) then [] # split sep (drop (length sep) (x # xs))
      else (case split sep xs of [] \<Rightarrow> [[x]] | p # ps \<Rightarrow> (x # p) # ps))"
  by pat_completeness auto
termination
  by (relation "measure (\<lambda>(sep, s). length s)") auto














section \<open>The property graph and the compiled predicates\<close>











section \<open>The schema model and the authorization injector\<close>





text \<open>
  Modelled from the spec: FieldDescriptor of section 3. The target, the edge label, the
  direction, the cardinality and the required flag are read for a relationship field.
\<close>

datatype kind = Primitive | Relationship | Computed
















section \<open>What the theorems speak about\<close>



section \<open>Example inputs\<close>





section \<open>Properties of the global node resolver\<close>

lemma find_no_label:
  "(\<forall>n \<in> set nodes. Some (getMainLabel n) \<noteq> l) \<Longrightarrow>
   find (\<lambda>n. Some (getMainLabel n) = l) nodes = None"
  by (simp add: find_None_iff)

text \<open>
  C9. When the decoded token lacks one of its three components (the component is
  \<open>undefined\<close> or the empty string), or no node of the schema has the decoded label as
  its main label, the resolver returns \<open>null\<close>: it raises nothing and hands no statement
  to \<open>execute\<close>.
\<close>

theorem resolve_null_without_query:
  assumes "falsy (gid_label (fromGlobalId tok)) \<or> falsy (gid_field (fromGlobalId tok)) \<or>
           falsy (gid_id (fromGlobalId tok)) \<or>
           (\<forall>n \<in> set nodes. Some (getMainLabel n) \<noteq> gid_label (fromGlobalId tok))"
  shows "resolve nodes fromGlobalId getNeo4jResolveTree translateRead execute tok ctx info
           = (Inr None, [])"
  using assms find_no_label [of nodes "gid_label (fromGlobalId tok)"]
  by (auto simp: resolve_def Let_def)

theorem resolve_null_without_query_witness:
  "falsy (gid_id ((\<lambda>_. \<lparr>gid_label = Some ''Movie'', gid_field = Some ''title'', gid_id = None\<rparr>) ''TW92aWU='')) \<and>
   resolve [\<lparr>name = ''Movie'', getMainLabel = ''Movie''\<rparr>]
     (\<lambda>_. \<lparr>gid_label = Some ''Movie'', gid_field = Some ''title'', gid_id = None\<rparr>)
     (\<lambda>_::unit. ()) (\<lambda>_ _. Inr ''MATCH (this:Movie)'') (\<lambda>_ _. Inr [])
     ''TW92aWU='' \<lparr>resolveTree = None\<rparr> ()
     = (Inr None, []) \<and>
   list_all (\<lambda>n. Some (getMainLabel n) \<noteq> Some ''Actor'')
     [\<lparr>name = ''Movie'', getMainLabel = ''Movie''\<rparr>] \<and>
   resolve [\<lparr>name = ''Movie'', getMainLabel = ''Movie''\<rparr>]
     (\<lambda>_. \<lparr>gid_label = Some ''Actor'', gid_field = Some ''name'', gid_id = Some ''Keanu''\<rparr>)
     (\<lambda>_::unit. ()) (\<lambda>_ _. Inr ''MATCH (this:Movie)'') (\<lambda>_ _. Inr [])
     ''QWN0b3I='' \<lparr>resolveTree = None\<rparr> ()
     = (Inr None, [])"
  using
    resolve_null_without_query [where
      fromGlobalId = "\<lambda>_. \<lparr>gid_label = Some ''Movie'', gid_field = Some ''title'', gid_id = None\<rparr>"
      and tok = "''TW92aWU=''"
      and nodes = "[\<lparr>name = ''Movie'', getMainLabel = ''Movie''\<rparr>]"
      and getNeo4jResolveTree = "\<lambda>_::unit. ()"
      and translateRead = "\<lambda>_ _. Inr ''MATCH (this:Movie)''" and execute = "\<lambda>_ _. Inr []"
      and ctx = "\<lparr>resolveTree = None\<rparr>" and info = "()"]
    resolve_null_without_query [where
      fromGlobalId = "\<lambda>_. \<lparr>gid_label = Some ''Actor'', gid_field = Some ''name'', gid_id = Some ''Keanu''\<rparr>"
      and tok = "''QWN0b3I=''"
      and nodes = "[\<lparr>name = ''Movie'', getMainLabel = ''Movie''\<rparr>]"
      and getNeo4jResolveTree = "\<lambda>_::unit. ()"
      and translateRead = "\<lambda>_ _. Inr ''MATCH (this:Movie)''" and execute = "\<lambda>_ _. Inr []"
      and ctx = "\<lparr>resolveTree = None\<rparr>" and info = "()"]
  by (simp add: falsy_def)

text \<open>
  C10. When all three components of the decoded token are present and some node has
  the decoded label as its main label, and translation and execution return, the
  resolver returns an object (never \<open>null\<close>) whose \<open>id\<close> is the token it was given and
  whose \<open>__resolveType\<close> is the name of the first such node. When the execution result
  has no record, or its first record has no \<open>this\<close>, the object has these two
  properties and no other.
\<close>

theorem resolve_found_object:
  assumes "\<not> falsy (gid_label (fromGlobalId tok))"
    and "\<not> falsy (gid_field (fromGlobalId tok))"
    and "\<not> falsy (gid_id (fromGlobalId tok))"
    and "find (\<lambda>n. Some (getMainLabel n) = gid_label (fromGlobalId tok)) nodes = Some node"
    and "translateRead (ctx\<lparr>resolveTree := Some (getNeo4jResolveTree info)\<rparr>) node = Inr q"
    and "execute (q, ''READ'') (ctx\<lparr>resolveTree := Some (getNeo4jResolveTree info)\<rparr>) = Inr records"
  shows "\<exists>obj. fst (resolve nodes fromGlobalId getNeo4jResolveTree translateRead execute
                      tok ctx info) = Inr (Some obj) \<and>
               obj ''id'' = Some (JStr tok) \<and>
               obj ''__resolveType'' = Some (JStr (name node)) \<and>
               ((records = [] \<or> this (hd records) = None) \<longrightarrow>
                  obj = [''id'' \<mapsto> JStr tok, ''__resolveType'' \<mapsto> JStr (name node)])"
  using assms
  by (auto simp: resolve_def Let_def split: list.splits option.splits)

theorem resolve_found_object_witness:
  "\<exists>obj. fst (resolve [\<lparr>name = ''Movie'', getMainLabel = ''Movie''\<rparr>]
                  (\<lambda>_. \<lparr>gid_label = Some ''Movie'', gid_field = Some ''title'', gid_id = Some ''Heat''\<rparr>)
                  (\<lambda>_::unit. ()) (\<lambda>_ _. Inr ''MATCH (this:Movie)'') (\<lambda>_ _. Inr [])
                  ''TW92aWU6dGl0bGU6SGVhdA=='' \<lparr>resolveTree = None\<rparr> ()) = Inr (Some obj) \<and>
         obj ''id'' = Some (JStr ''TW92aWU6dGl0bGU6SGVhdA=='') \<and>
         obj ''__resolveType'' = Some (JStr ''Movie'') \<and>
         obj = [''id'' \<mapsto> JStr ''TW92aWU6dGl0bGU6SGVhdA=='', ''__resolveType'' \<mapsto> JStr ''Movie'']"
  using resolve_found_object [where
      fromGlobalId = "\<lambda>_. \<lparr>gid_label = Some ''Movie'', gid_field = Some ''title'', gid_id = Some ''Heat''\<rparr>"
      and tok = "''TW92aWU6dGl0bGU6SGVhdA==''"
      and nodes = "[\<lparr>name = ''Movie'', getMainLabel = ''Movie''\<rparr>]"
      and node = "\<lparr>name = ''Movie'', getMainLabel = ''Movie''\<rparr>"
      and translateRead = "\<lambda>_ _. Inr ''MATCH (this:Movie)''"
      and ctx = "\<lparr>resolveTree = None\<rparr>"
      and getNeo4jResolveTree = "\<lambda>_::unit. ()" and info = "()"
      and q = "''MATCH (this:Movie)''" and execute = "\<lambda>_ _. Inr []" and records = "[]"]
  by (simp add: falsy_def)

section \<open>Properties of the context parser\<close>











section \<open>Properties of the authorization injector\<close>










end
